theory Spec2Isabelle
  imports Complex_Main
begin

section \<open>The BLMID validator: data model\<close>

text \<open>
  The development embeds \<^verbatim>\<open>blmid_validator/validator.py\<close> (the class
  \<^verbatim>\<open>Validator\<close>), the two lookups of \<^verbatim>\<open>excel_handler.py\<close>
  (\<^verbatim>\<open>ExcelHandler.find_by_blmid\<close>, \<^verbatim>\<open>ExcelHandler.find_by_coordinates\<close>) and
  \<^verbatim>\<open>MockDatabase.find_by_coordinates\<close> of \<^verbatim>\<open>database.py\<close>.

  Python floats are idealised as real numbers: comparisons and differences are exact, and
  there is no NaN and no infinity. Python's rendering of a number inside an f-string is not
  modelled; it is the parameter \<open>fmt\<close> of the functions that build such messages.
\<close>

text \<open>
  A coordinate as \<^verbatim>\<open>batch_validate\<close> reads it from an extraction dictionary:
  \<^verbatim>\<open>None\<close>, a number (\<^verbatim>\<open>int\<close> or \<^verbatim>\<open>float\<close>), or any other object; for the
  latter the model keeps the text that \<^verbatim>\<open>{type(x)}\<close> renders.
\<close>

datatype pyval = PyNone | PyNum real | PyOther string

datatype py_exception = ValueError string | TypeError string

text \<open>The configuration held by a \<^verbatim>\<open>Validator\<close> instance.\<close>

record validator =
  coordinate_tolerance :: real
  latitude_min :: real
  latitude_max :: real
  longitude_min :: real
  longitude_max :: real
  check_duplicates :: bool

text \<open>The defaults of \<^verbatim>\<open>Validator.__init__\<close>.\<close>

definition Validator :: validator where
  "Validator = \<lparr> coordinate_tolerance = 1 / 10000, latitude_min = - 90, latitude_max = 90,
                 longitude_min = - 180, longitude_max = 180, check_duplicates = True \<rparr>"

text \<open>
  The dictionary a lookup returns: keys \<^verbatim>\<open>"blmid"\<close>, \<^verbatim>\<open>"latitude"\<close>,
  \<^verbatim>\<open>"longitude"\<close>.
\<close>

record lookup =
  lk_blmid :: string
  lk_latitude :: real
  lk_longitude :: real

text \<open>The dataclass \<^verbatim>\<open>ValidationResult\<close>.\<close>

record validation_result =
  pdf_file :: string
  blmid :: "string option"
  latitude :: pyval
  longitude :: pyval
  excel_match :: bool
  database_match :: bool
  correct_blmid :: "string option"
  correction_needed :: bool
  errors :: "string list"
  warnings :: "string list"

section \<open>Strings\<close>

text \<open>
  \<^verbatim>\<open>str.upper()\<close> on ASCII text: the letters a to z (codes 97 to 122) move down by 32,
  every other character stays. Identifiers are ASCII (the extraction pattern admits
  \<^verbatim>\<open>[A-Z0-9]+\<close> only).
\<close>

definition upper_char :: "char \<Rightarrow> char" where
  "upper_char c =
     (let n = (of_char c :: nat) in if 97 \<le> n \<and> n \<le> 122 then char_of (n - 32) else c)"

definition upper :: "string \<Rightarrow> string" where
  "upper s = map upper_char s"

text \<open>How an f-string renders an \<^verbatim>\<open>Optional[str]\<close>.\<close>

definition str_opt :: "string option \<Rightarrow> string" where
  "str_opt b = (case b of None \<Rightarrow> ''None'' | Some s \<Rightarrow> s)"

section \<open>Validator.validate\_coordinates and Validator.check\_coordinates\_match\<close>

definition latitude_errors :: "(real \<Rightarrow> string) \<Rightarrow> validator \<Rightarrow> pyval \<Rightarrow> string list" where
  "latitude_errors fmt v lat =
     (case lat of
        PyNone \<Rightarrow> [''Latitude is None'']
      | PyOther t \<Rightarrow> [''Latitude must be numeric, got '' @ t]
      | PyNum x \<Rightarrow>
          if x < latitude_min v \<or> x > latitude_max v
          then [''Latitude '' @ fmt x @ '' out of range ['' @ fmt (latitude_min v) @ '', ''
                  @ fmt (latitude_max v) @ '']'']
          else [])"

definition longitude_errors :: "(real \<Rightarrow> string) \<Rightarrow> validator \<Rightarrow> pyval \<Rightarrow> string list" where
  "longitude_errors fmt v lon =
     (case lon of
        PyNone \<Rightarrow> [''Longitude is None'']
      | PyOther t \<Rightarrow> [''Longitude must be numeric, got '' @ t]
      | PyNum x \<Rightarrow>
          if x < longitude_min v \<or> x > longitude_max v
          then [''Longitude '' @ fmt x @ '' out of range ['' @ fmt (longitude_min v) @ '', ''
                  @ fmt (longitude_max v) @ '']'']
          else [])"

definition validate_coordinates ::
  "(real \<Rightarrow> string) \<Rightarrow> validator \<Rightarrow> pyval \<Rightarrow> pyval \<Rightarrow> bool \<times> string list" where
  "validate_coordinates fmt v lat lon =
     (let errs = latitude_errors fmt v lat @ longitude_errors fmt v lon
      in (length errs = 0, errs))"

definition check_coordinates_match :: "validator \<Rightarrow> real \<Rightarrow> real \<Rightarrow> real \<Rightarrow> real \<Rightarrow> bool" where
  "check_coordinates_match v lat1 lon1 lat2 lon2 =
     (\<bar>lat1 - lat2\<bar> \<le> coordinate_tolerance v \<and> \<bar>lon1 - lon2\<bar> \<le> coordinate_tolerance v)"

section \<open>Validator.validate\_entry\<close>

text \<open>
  The Excel step (source lines 161 to 176). It runs only after the coordinates passed
  validation, so both are numbers; the other cases of the \<open>case\<close> are unreachable from
  \<open>validate_entry\<close> and leave the result as it is.
\<close>

definition excel_step ::
  "validator \<Rightarrow> string option \<Rightarrow> pyval \<Rightarrow> pyval \<Rightarrow> lookup option \<Rightarrow>
   validation_result \<Rightarrow> validation_result" where
  "excel_step v extracted_blmid lat lon excel_lookup_result result =
     (case excel_lookup_result of
        None \<Rightarrow> result
      | Some x \<Rightarrow>
          (case (lat, lon) of
             (PyNum la, PyNum lo) \<Rightarrow>
               if check_coordinates_match v la lo (lk_latitude x) (lk_longitude x)
               then result\<lparr>excel_match := True\<rparr>
               else result\<lparr>warnings := warnings result @
                      [''BLMID '' @ str_opt extracted_blmid @ '' in Excel but coordinates don''
                         @ [CHR 0x27] @ ''t match'']\<rparr>
           | _ \<Rightarrow> result))"

text \<open>
  The database step (source lines 178 to 188). The test
  \<^verbatim>\<open>extracted_blmid and database_lookup_result["blmid"].upper() != extracted_blmid.upper()\<close>
  is false for \<^verbatim>\<open>None\<close> and for the empty string.
\<close>

definition database_step ::
  "string option \<Rightarrow> lookup option \<Rightarrow> validation_result \<Rightarrow> validation_result" where
  "database_step extracted_blmid database_lookup_result result =
     (case database_lookup_result of
        Some d \<Rightarrow>
          (let result = result\<lparr>database_match := True\<rparr>
           in if (case extracted_blmid of
                    None \<Rightarrow> False
                  | Some b \<Rightarrow> b \<noteq> [] \<and> upper (lk_blmid d) \<noteq> upper b)
              then result\<lparr>correction_needed := True, correct_blmid := Some (lk_blmid d)\<rparr>
              else result)
      | None \<Rightarrow>
          result\<lparr>errors := errors result @
                   [''No matching BLMID found in database for these coordinates'']\<rparr>)"

definition validate_entry ::
  "(real \<Rightarrow> string) \<Rightarrow> validator \<Rightarrow> string \<Rightarrow> string option \<Rightarrow> pyval \<Rightarrow> pyval \<Rightarrow>
   lookup option \<Rightarrow> lookup option \<Rightarrow> string list \<Rightarrow> validation_result" where
  "validate_entry fmt v file extracted_blmid extracted_latitude extracted_longitude
     excel_lookup_result database_lookup_result pdf_extraction_errors =
     (let result = \<lparr> pdf_file = file, blmid = extracted_blmid,
                      latitude = extracted_latitude, longitude = extracted_longitude,
                      excel_match = False, database_match = False,
                      correct_blmid = extracted_blmid, correction_needed = False,
                      errors = pdf_extraction_errors, warnings = [] \<rparr>;
          (coords_valid, coord_errors) =
             validate_coordinates fmt v extracted_latitude extracted_longitude
      in if \<not> coords_valid then result\<lparr>errors := errors result @ coord_errors\<rparr>
         else database_step extracted_blmid database_lookup_result
                (excel_step v extracted_blmid extracted_latitude extracted_longitude
                   excel_lookup_result result))"

section \<open>ExcelHandler: the reference sheet\<close>

text \<open>
  A cell of the \<^verbatim>\<open>Latitude\<close> or \<^verbatim>\<open>Longitude\<close> column: a number, or a text that
  \<^verbatim>\<open>float()\<close> rejects (the sheet is maintained by hand). The \<^verbatim>\<open>BLMID\<close> column is kept
  as \<^verbatim>\<open>astype(str)\<close> reads it.
\<close>

datatype cell = Num real | Text string

record ref_row =
  row_BLMID :: string
  row_Latitude :: cell
  row_Longitude :: cell

text \<open>\<^verbatim>\<open>float(row["Latitude"])\<close>: raises \<^verbatim>\<open>ValueError\<close> on such a text.\<close>

definition to_float :: "cell \<Rightarrow> py_exception + real" where
  "to_float c =
     (case c of
        Num x \<Rightarrow> Inr x
      | Text s \<Rightarrow>
          Inl (ValueError (''could not convert string to float: '' @ [CHR 0x27] @ s @ [CHR 0x27])))"

text \<open>
  The dictionary built from the first matching row (\<^verbatim>\<open>matches.iloc[0]\<close>); the latitude is
  converted before the longitude.
\<close>

definition row_dict :: "ref_row \<Rightarrow> py_exception + lookup option" where
  "row_dict r =
     (case to_float (row_Latitude r) of
        Inl e \<Rightarrow> Inl e
      | Inr la \<Rightarrow>
          (case to_float (row_Longitude r) of
             Inl e \<Rightarrow> Inl e
           | Inr lo \<Rightarrow> Inr (Some \<lparr> lk_blmid = row_BLMID r, lk_latitude = la, lk_longitude = lo \<rparr>)))"

text \<open>
  \<^verbatim>\<open>ExcelHandler.find_by_blmid\<close>. The first argument is \<^verbatim>\<open>self.df\<close>:
  \<^verbatim>\<open>None\<close> before \<^verbatim>\<open>load\<close>, the rows in sheet order afterwards.
\<close>

definition find_by_blmid :: "ref_row list option \<Rightarrow> string \<Rightarrow> py_exception + lookup option" where
  "find_by_blmid df b =
     (case df of
        None \<Rightarrow> Inr None
      | Some rows \<Rightarrow>
          (case filter (\<lambda>r. upper (row_BLMID r) = upper b) rows of
             [] \<Rightarrow> Inr None
           | r # _ \<Rightarrow> row_dict r))"

text \<open>
  \<^verbatim>\<open>ExcelHandler.find_by_coordinates\<close>. The filter subtracts the target from the whole
  column, so it raises \<^verbatim>\<open>TypeError\<close> as soon as the column holds a text cell.
\<close>

definition is_num :: "cell \<Rightarrow> bool" where
  "is_num c = (case c of Num _ \<Rightarrow> True | Text _ \<Rightarrow> False)"

definition cell_within :: "cell \<Rightarrow> real \<Rightarrow> real \<Rightarrow> bool" where
  "cell_within c x tolerance = (case c of Num y \<Rightarrow> \<bar>y - x\<bar> \<le> tolerance | Text _ \<Rightarrow> False)"

definition find_by_coordinates ::
  "ref_row list option \<Rightarrow> real \<Rightarrow> real \<Rightarrow> real \<Rightarrow> py_exception + lookup option" where
  "find_by_coordinates df lat lon tolerance =
     (case df of
        None \<Rightarrow> Inr None
      | Some rows \<Rightarrow>
          if \<not> list_all (\<lambda>r. is_num (row_Latitude r)) rows
             \<or> \<not> list_all (\<lambda>r. is_num (row_Longitude r)) rows
          then Inl (TypeError ''unsupported operand type(s) for -: str and float'')
          else (case filter (\<lambda>r. cell_within (row_Latitude r) lat tolerance
                                \<and> cell_within (row_Longitude r) lon tolerance) rows of
                  [] \<Rightarrow> Inr None
                | r # _ \<Rightarrow> row_dict r))"

section \<open>MockDatabase.find\_by\_coordinates\<close>

text \<open>
  The records are scanned in order; \<^verbatim>\<open>and\<close> evaluates the longitude test only when the
  latitude test holds. Subtracting anything but a number raises \<^verbatim>\<open>TypeError\<close>.
\<close>

fun mock_find_by_coordinates ::
  "lookup list \<Rightarrow> pyval \<Rightarrow> pyval \<Rightarrow> real \<Rightarrow> py_exception + lookup option" where
  "mock_find_by_coordinates [] lat lon tolerance = Inr None"
| "mock_find_by_coordinates (record # records) lat lon tolerance =
     (case lat of
        PyNum la \<Rightarrow>
          if \<bar>lk_latitude record - la\<bar> \<le> tolerance
          then (case lon of
                  PyNum lo \<Rightarrow>
                    if \<bar>lk_longitude record - lo\<bar> \<le> tolerance then Inr (Some record)
                    else mock_find_by_coordinates records lat lon tolerance
                | _ \<Rightarrow> Inl (TypeError ''unsupported operand type(s) for -''))
          else mock_find_by_coordinates records lat lon tolerance
      | _ \<Rightarrow> Inl (TypeError ''unsupported operand type(s) for -''))"

text \<open>The records a \<^verbatim>\<open>MockDatabase()\<close> holds when none are given.\<close>

definition mock_records :: "lookup list" where
  "mock_records =
     [\<lparr> lk_blmid = ''BLM001'', lk_latitude = 407128 / 10000, lk_longitude = - (74006 / 1000) \<rparr>,
      \<lparr> lk_blmid = ''BLM002'', lk_latitude = 515074 / 10000, lk_longitude = - (1278 / 10000) \<rparr>,
      \<lparr> lk_blmid = ''BLM003'', lk_latitude = 488566 / 10000, lk_longitude = 23522 / 10000 \<rparr>]"

section \<open>Validator.batch\_validate\<close>

text \<open>
  One extraction dictionary. \<^verbatim>\<open>ex_pdf_file = None\<close> and \<^verbatim>\<open>ex_errors = None\<close> stand for a
  missing key, which \<^verbatim>\<open>.get\<close> replaces by \<^verbatim>\<open>"unknown"\<close> and \<^verbatim>\<open>[]\<close>.
\<close>

record extraction =
  ex_pdf_file :: "string option"
  ex_blmid :: "string option"
  ex_latitude :: pyval
  ex_longitude :: pyval
  ex_errors :: "string list option"

text \<open>One row of the corrections ledger.\<close>

record correction =
  Original_Entry :: "string option"
  Corrected_BLMID :: "string option"
  Latitude :: pyval
  Longitude :: pyval
  Source_PDF :: string

record summary =
  total_processed :: nat
  valid_entries :: nat
  corrected_entries :: nat
  failed_extractions :: nat
  corrections :: "correction list"
  results :: "validation_result list"

text \<open>The three outcomes \<^verbatim>\<open>batch_validate\<close> counts (source lines 251 to 263).\<close>

datatype status = VALID | CORRECTED | FAILED

definition status_of :: "validation_result \<Rightarrow> status" where
  "status_of validation =
     (if errors validation \<noteq> [] then FAILED
      else if correction_needed validation then CORRECTED
      else VALID)"

definition update_summary :: "summary \<Rightarrow> validation_result \<Rightarrow> summary" where
  "update_summary s validation =
     (if errors validation \<noteq> [] then s\<lparr>failed_extractions := failed_extractions s + 1\<rparr>
      else if correction_needed validation
      then s\<lparr>corrected_entries := corrected_entries s + 1,
             corrections := corrections s @
               [\<lparr> Original_Entry = blmid validation,
                  Corrected_BLMID = correct_blmid validation,
                  Latitude = latitude validation,
                  Longitude = longitude validation,
                  Source_PDF = pdf_file validation \<rparr>]\<rparr>
      else s\<lparr>valid_entries := valid_entries s + 1\<rparr>)"

text \<open>
  The two handlers are arguments of \<^verbatim>\<open>batch_validate\<close>; the model takes the method
  each one is called through. A call that raises ends the loop with the exception:
  \<^verbatim>\<open>batch_validate\<close> has no \<^verbatim>\<open>try\<close>.
\<close>

type_synonym excel_handler = "string \<Rightarrow> py_exception + lookup option"
type_synonym database_connector = "pyval \<Rightarrow> pyval \<Rightarrow> real \<Rightarrow> py_exception + lookup option"

text \<open>Lines 225 to 228: the Excel lookup, made only for an identifier that is neither
  \<^verbatim>\<open>None\<close> nor empty.\<close>

definition excel_lookup :: "excel_handler \<Rightarrow> string option \<Rightarrow> py_exception + lookup option" where
  "excel_lookup excel extracted_blmid =
     (case extracted_blmid of
        None \<Rightarrow> Inr None
      | Some b \<Rightarrow> if b \<noteq> [] then excel b else Inr None)"

text \<open>Lines 230 to 235: the database lookup, made only when neither coordinate is \<^verbatim>\<open>None\<close>.\<close>

definition database_lookup ::
  "validator \<Rightarrow> database_connector \<Rightarrow> pyval \<Rightarrow> pyval \<Rightarrow> py_exception + lookup option" where
  "database_lookup v db lat lon =
     (if lat \<noteq> PyNone \<and> lon \<noteq> PyNone then db lat lon (coordinate_tolerance v) else Inr None)"

text \<open>The body of the loop up to the call of \<^verbatim>\<open>validate_entry\<close> (lines 219 to 246).\<close>

definition validate_extraction ::
  "(real \<Rightarrow> string) \<Rightarrow> validator \<Rightarrow> excel_handler \<Rightarrow> database_connector \<Rightarrow> extraction \<Rightarrow>
   py_exception + validation_result" where
  "validate_extraction fmt v excel db e =
     (case excel_lookup excel (ex_blmid e) of
        Inl x \<Rightarrow> Inl x
      | Inr excel_result \<Rightarrow>
          (case database_lookup v db (ex_latitude e) (ex_longitude e) of
             Inl x \<Rightarrow> Inl x
           | Inr database_result \<Rightarrow>
               Inr (validate_entry fmt v
                      (case ex_pdf_file e of None \<Rightarrow> ''unknown'' | Some f \<Rightarrow> f)
                      (ex_blmid e) (ex_latitude e) (ex_longitude e)
                      excel_result database_result
                      (case ex_errors e of None \<Rightarrow> [] | Some es \<Rightarrow> es))))"

fun batch_loop ::
  "(real \<Rightarrow> string) \<Rightarrow> validator \<Rightarrow> excel_handler \<Rightarrow> database_connector \<Rightarrow>
   extraction list \<Rightarrow> summary \<Rightarrow> py_exception + summary" where
  "batch_loop fmt v excel db [] s = Inr s"
| "batch_loop fmt v excel db (e # es) s =
     (case validate_extraction fmt v excel db e of
        Inl x \<Rightarrow> Inl x
      | Inr validation \<Rightarrow>
          batch_loop fmt v excel db es
            (update_summary (s\<lparr>results := results s @ [validation]\<rparr>) validation))"

text \<open>
  A formatter for evaluated examples: every number is rendered as a fixed mark. No
  statement below depends on how numbers are rendered.
\<close>

definition plain_fmt :: "real \<Rightarrow> string" where
  "plain_fmt x = ''<num>''"

text \<open>The summary before the loop (source lines 209 to 216).\<close>

definition initial_summary :: "nat \<Rightarrow> summary" where
  "initial_summary n =
     \<lparr> total_processed = n, valid_entries = 0, corrected_entries = 0,
       failed_extractions = 0, corrections = [], results = [] \<rparr>"

definition batch_validate ::
  "(real \<Rightarrow> string) \<Rightarrow> validator \<Rightarrow> extraction list \<Rightarrow> excel_handler \<Rightarrow> database_connector \<Rightarrow>
   py_exception + summary" where
  "batch_validate fmt v pdf_extractions excel db =
     batch_loop fmt v excel db pdf_extractions (initial_summary (length pdf_extractions))"

text \<open>How many results of a list have a given status.\<close>

definition count_status :: "status \<Rightarrow> validation_result list \<Rightarrow> nat" where
  "count_status st ds = length (filter (\<lambda>d. status_of d = st) ds)"

section \<open>Sample data\<close>

text \<open>
  Three extractions that agree with the records of \<open>mock_records\<close>, a reference sheet
  whose second row has a text in the latitude column, and a reference sheet in which the
  identifier \<^verbatim>\<open>BLM001\<close> sits at other coordinates than the entry examined below.
\<close>

definition form1 :: extraction where
  "form1 = \<lparr> ex_pdf_file = Some ''form1.pdf'', ex_blmid = Some ''BLM001'',
             ex_latitude = PyNum (407128 / 10000), ex_longitude = PyNum (- (74006 / 1000)),
             ex_errors = Some [] \<rparr>"

definition form2 :: extraction where
  "form2 = \<lparr> ex_pdf_file = Some ''form2.pdf'', ex_blmid = Some ''BLM002'',
             ex_latitude = PyNum (515074 / 10000), ex_longitude = PyNum (- (1278 / 10000)),
             ex_errors = Some [] \<rparr>"

definition form3 :: extraction where
  "form3 = \<lparr> ex_pdf_file = Some ''form3.pdf'', ex_blmid = Some ''BLM003'',
             ex_latitude = PyNum (488566 / 10000), ex_longitude = PyNum (23522 / 10000),
             ex_errors = Some [] \<rparr>"

definition damaged_sheet :: "ref_row list" where
  "damaged_sheet =
     [\<lparr> row_BLMID = ''BLM001'', row_Latitude = Num (407128 / 10000),
        row_Longitude = Num (- (74006 / 1000)) \<rparr>,
      \<lparr> row_BLMID = ''BLM002'', row_Latitude = Text ''unknown'',
        row_Longitude = Num (- (1278 / 10000)) \<rparr>,
      \<lparr> row_BLMID = ''BLM003'', row_Latitude = Num (488566 / 10000),
        row_Longitude = Num (23522 / 10000) \<rparr>]"

definition sample_sheet :: "ref_row list" where
  "sample_sheet =
     [\<lparr> row_BLMID = ''BLM999'', row_Latitude = Num 40, row_Longitude = Num (- 74) \<rparr>,
      \<lparr> row_BLMID = ''BLM001'', row_Latitude = Num 41, row_Longitude = Num (- 75) \<rparr>]"

section \<open>Facts about validate\_coordinates and validate\_entry\<close>

lemmas entry_eval =
  validate_entry_def validate_coordinates_def latitude_errors_def longitude_errors_def
  check_coordinates_match_def Validator_def excel_step_def database_step_def status_of_def
  upper_def upper_char_def char_of_def bit_0 str_opt_def plain_fmt_def Let_def

text \<open>Coordinates pass exactly when both are numbers inside the configured ranges.\<close>

lemma valid_coordinates_iff:
  "fst (validate_coordinates fmt v lat lon) \<longleftrightarrow>
     (\<exists>la lo. lat = PyNum la \<and> lon = PyNum lo \<and>
        latitude_min v \<le> la \<and> la \<le> latitude_max v \<and>
        longitude_min v \<le> lo \<and> lo \<le> longitude_max v)"
  by (auto simp: validate_coordinates_def latitude_errors_def longitude_errors_def Let_def
           split: pyval.splits)

lemma validate_coordinates_snd_invalid:
  "\<not> fst (validate_coordinates fmt v lat lon) \<Longrightarrow> snd (validate_coordinates fmt v lat lon) \<noteq> []"
  by (simp add: validate_coordinates_def Let_def)

text \<open>The early return of \<open>validate_entry\<close> (source lines 157 to 159).\<close>

lemma validate_entry_invalid:
  "\<not> fst (validate_coordinates fmt v lat lon) \<Longrightarrow>
   validate_entry fmt v f b lat lon excel db errs =
     \<lparr> pdf_file = f, blmid = b, latitude = lat, longitude = lon,
       excel_match = False, database_match = False, correct_blmid = b,
       correction_needed = False,
       errors = errs @ snd (validate_coordinates fmt v lat lon), warnings = [] \<rparr>"
  by (cases "validate_coordinates fmt v lat lon") (simp add: validate_entry_def Let_def)

lemma validate_entry_valid:
  "fst (validate_coordinates fmt v lat lon) \<Longrightarrow>
   validate_entry fmt v f b lat lon excel db errs =
     database_step b db (excel_step v b lat lon excel
       \<lparr> pdf_file = f, blmid = b, latitude = lat, longitude = lon,
         excel_match = False, database_match = False, correct_blmid = b,
         correction_needed = False, errors = errs, warnings = [] \<rparr>)"
  by (cases "validate_coordinates fmt v lat lon") (simp add: validate_entry_def Let_def)

text \<open>The Excel step touches \<open>excel_match\<close> and \<open>warnings\<close> only.\<close>

lemma excel_step_fields:
  "errors (excel_step v b lat lon excel r) = errors r"
  "correction_needed (excel_step v b lat lon excel r) = correction_needed r"
  "correct_blmid (excel_step v b lat lon excel r) = correct_blmid r"
  "database_match (excel_step v b lat lon excel r) = database_match r"
  "blmid (excel_step v b lat lon excel r) = blmid r"
  "pdf_file (excel_step v b lat lon excel r) = pdf_file r"
  "latitude (excel_step v b lat lon excel r) = latitude r"
  "longitude (excel_step v b lat lon excel r) = longitude r"
  by (simp_all add: excel_step_def split: option.splits pyval.splits prod.splits)

text \<open>The database step leaves the Excel flag, the warnings and the echoed input alone.\<close>

lemma database_step_fields:
  "excel_match (database_step b db r) = excel_match r"
  "warnings (database_step b db r) = warnings r"
  "blmid (database_step b db r) = blmid r"
  "pdf_file (database_step b db r) = pdf_file r"
  "latitude (database_step b db r) = latitude r"
  "longitude (database_step b db r) = longitude r"
  by (simp_all add: database_step_def Let_def split: option.splits)


lemma status_of_database_step:
  "status_of (database_step b db r) =
     (case db of
        None \<Rightarrow> FAILED
      | Some d \<Rightarrow>
          if errors r \<noteq> [] then FAILED
          else if (case b of None \<Rightarrow> False | Some i \<Rightarrow> i \<noteq> [] \<and> upper (lk_blmid d) \<noteq> upper i)
                  \<or> correction_needed r
               then CORRECTED else VALID)"
  by (simp add: status_of_def database_step_def Let_def split: option.splits)

section \<open>Reference exact match (C1)\<close>

text \<open>
  An entry that matches its reference row exactly (same identifier up to case, coordinates
  within tolerance) gets \<open>excel_match\<close>, but the database is consulted all the same:
  with no database record the entry is counted failed, with a database record under another
  identifier it is counted corrected.
\<close>

theorem exact_excel_match_not_always_valid:
  "upper (lk_blmid \<lparr> lk_blmid = ''BLM001'', lk_latitude = 407128 / 10000,
                     lk_longitude = - (74006 / 1000) \<rparr>) = upper ''BLM001'' \<and>
   check_coordinates_match Validator (407128 / 10000) (- (74006 / 1000)) (407128 / 10000)
     (- (74006 / 1000)) \<and>
   excel_match (validate_entry plain_fmt Validator ''form1.pdf'' (Some ''BLM001'')
      (PyNum (407128 / 10000)) (PyNum (- (74006 / 1000)))
      (Some \<lparr> lk_blmid = ''BLM001'', lk_latitude = 407128 / 10000,
              lk_longitude = - (74006 / 1000) \<rparr>)
      None []) \<and>
   status_of (validate_entry plain_fmt Validator ''form1.pdf'' (Some ''BLM001'')
      (PyNum (407128 / 10000)) (PyNum (- (74006 / 1000)))
      (Some \<lparr> lk_blmid = ''BLM001'', lk_latitude = 407128 / 10000,
              lk_longitude = - (74006 / 1000) \<rparr>)
      None []) = FAILED \<and>
   status_of (validate_entry plain_fmt Validator ''form1.pdf'' (Some ''BLM001'')
      (PyNum (407128 / 10000)) (PyNum (- (74006 / 1000)))
      (Some \<lparr> lk_blmid = ''BLM001'', lk_latitude = 407128 / 10000,
              lk_longitude = - (74006 / 1000) \<rparr>)
      (Some \<lparr> lk_blmid = ''BLM007'', lk_latitude = 407128 / 10000,
              lk_longitude = - (74006 / 1000) \<rparr>) []) = CORRECTED"
  by (simp add: entry_eval)

text \<open>
  C1, as the code has it. For every entry with valid coordinates and a non-empty identifier
  whose reference lookup is an exact match (identifier equal up to case, coordinates within
  tolerance), \<open>validate_entry\<close> sets \<open>excel_match\<close> whatever the database lookup
  returned. The status still follows the database lookup: failed when it is absent or when
  the entry carries extraction errors, corrected when the database identifier differs up to
  case, valid when it agrees.
\<close>

theorem exact_excel_match_status:
  assumes "fst (validate_coordinates fmt v (PyNum la) (PyNum lo))"
    and "i \<noteq> []"
    and "upper (lk_blmid x) = upper i"
    and "check_coordinates_match v la lo (lk_latitude x) (lk_longitude x)"
  shows "excel_match (validate_entry fmt v f (Some i) (PyNum la) (PyNum lo) (Some x) db errs) \<and>
         status_of (validate_entry fmt v f (Some i) (PyNum la) (PyNum lo) (Some x) db errs) =
           (case db of
              None \<Rightarrow> FAILED
            | Some d \<Rightarrow>
                if errs \<noteq> [] then FAILED
                else if upper (lk_blmid d) \<noteq> upper i then CORRECTED
                else VALID)"
  using assms
  by (simp add: validate_entry_valid status_of_database_step database_step_fields
        excel_step_fields)
     (simp add: excel_step_def split: option.splits)

theorem exact_excel_match_status_witness:
  "fst (validate_coordinates plain_fmt Validator (PyNum (407128 / 10000))
          (PyNum (- (74006 / 1000)))) \<and>
   ''BLM001'' \<noteq> [] \<and>
   upper (lk_blmid \<lparr> lk_blmid = ''blm001'', lk_latitude = 407128 / 10000,
                     lk_longitude = - (74006 / 1000) \<rparr>) = upper ''BLM001'' \<and>
   check_coordinates_match Validator (407128 / 10000) (- (74006 / 1000))
     (lk_latitude \<lparr> lk_blmid = ''blm001'', lk_latitude = 407128 / 10000,
                    lk_longitude = - (74006 / 1000) \<rparr>)
     (lk_longitude \<lparr> lk_blmid = ''blm001'', lk_latitude = 407128 / 10000,
                     lk_longitude = - (74006 / 1000) \<rparr>) \<and>
   excel_match (validate_entry plain_fmt Validator ''form1.pdf'' (Some ''BLM001'')
      (PyNum (407128 / 10000)) (PyNum (- (74006 / 1000)))
      (Some \<lparr> lk_blmid = ''blm001'', lk_latitude = 407128 / 10000,
              lk_longitude = - (74006 / 1000) \<rparr>)
      (Some \<lparr> lk_blmid = ''Blm001'', lk_latitude = 407128 / 10000,
              lk_longitude = - (74006 / 1000) \<rparr>) []) \<and>
   status_of (validate_entry plain_fmt Validator ''form1.pdf'' (Some ''BLM001'')
      (PyNum (407128 / 10000)) (PyNum (- (74006 / 1000)))
      (Some \<lparr> lk_blmid = ''blm001'', lk_latitude = 407128 / 10000,
              lk_longitude = - (74006 / 1000) \<rparr>)
      (Some \<lparr> lk_blmid = ''Blm001'', lk_latitude = 407128 / 10000,
              lk_longitude = - (74006 / 1000) \<rparr>) []) = VALID"
proof -
  have h1: "fst (validate_coordinates plain_fmt Validator (PyNum (407128 / 10000))
          (PyNum (- (74006 / 1000))))"
    by (simp add: entry_eval)
  have h2: "''BLM001'' \<noteq> []" by simp
  have h3: "upper (lk_blmid \<lparr> lk_blmid = ''blm001'', lk_latitude = 407128 / 10000,
                     lk_longitude = - (74006 / 1000) \<rparr>) = upper ''BLM001''"
    by (simp add: entry_eval)
  have h4: "check_coordinates_match Validator (407128 / 10000) (- (74006 / 1000))
     (lk_latitude \<lparr> lk_blmid = ''blm001'', lk_latitude = 407128 / 10000,
                    lk_longitude = - (74006 / 1000) \<rparr>)
     (lk_longitude \<lparr> lk_blmid = ''blm001'', lk_latitude = 407128 / 10000,
                     lk_longitude = - (74006 / 1000) \<rparr>)"
    by (simp add: entry_eval)
  have h5: "upper ''Blm001'' = upper ''BLM001''"
    by (simp add: entry_eval)
  from h1 h2 h3 h4 h5
    exact_excel_match_status [OF h1 h2 h3 h4, of "''form1.pdf''"
      "Some \<lparr> lk_blmid = ''Blm001'', lk_latitude = 407128 / 10000,
              lk_longitude = - (74006 / 1000) \<rparr>" "[]"]
  show ?thesis by simp
qed

section \<open>Database record under another identifier (C3)\<close>

text \<open>
  A database record under another identifier does not always give a corrected entry: an
  entry that carries extraction errors is counted failed, and an entry without an
  identifier is counted valid.
\<close>

theorem database_mismatch_not_always_corrected:
  "fst (validate_coordinates plain_fmt Validator (PyNum (407128 / 10000))
          (PyNum (- (74006 / 1000)))) \<and>
   upper ''BLM007'' \<noteq> upper ''BLM001'' \<and>
   status_of (validate_entry plain_fmt Validator ''form1.pdf'' (Some ''BLM001'')
      (PyNum (407128 / 10000)) (PyNum (- (74006 / 1000))) None
      (Some \<lparr> lk_blmid = ''BLM007'', lk_latitude = 4071281 / 100000,
              lk_longitude = - (7400601 / 100000) \<rparr>)
      [''OCR extraction failed'']) = FAILED \<and>
   status_of (validate_entry plain_fmt Validator ''form1.pdf'' None
      (PyNum (407128 / 10000)) (PyNum (- (74006 / 1000))) None
      (Some \<lparr> lk_blmid = ''BLM007'', lk_latitude = 4071281 / 100000,
              lk_longitude = - (7400601 / 100000) \<rparr>)
      []) = VALID"
  by (simp add: entry_eval)

text \<open>
  C3, as the code has it. For every entry with valid coordinates, a non-empty identifier and
  no extraction errors, when the database lookup returned a record whose identifier differs
  up to case from the extracted one, the entry is counted corrected, \<open>database_match\<close>
  is set and \<open>correct_blmid\<close> is the identifier of the database record. This holds
  whatever the reference lookup returned.
\<close>

theorem database_mismatch_corrected:
  assumes "fst (validate_coordinates fmt v lat lon)"
    and "i \<noteq> []"
    and "upper (lk_blmid d) \<noteq> upper i"
  shows "status_of (validate_entry fmt v f (Some i) lat lon excel (Some d) []) = CORRECTED \<and>
         database_match (validate_entry fmt v f (Some i) lat lon excel (Some d) []) \<and>
         correct_blmid (validate_entry fmt v f (Some i) lat lon excel (Some d) []) =
           Some (lk_blmid d)"
  using assms
  by (simp add: validate_entry_valid status_of_database_step excel_step_fields)
     (simp add: database_step_def Let_def)

theorem database_mismatch_corrected_witness:
  "fst (validate_coordinates plain_fmt Validator (PyNum (407128 / 10000))
          (PyNum (- (74006 / 1000)))) \<and>
   ''BLM001'' \<noteq> [] \<and>
   upper (lk_blmid \<lparr> lk_blmid = ''BLM007'', lk_latitude = 4071281 / 100000,
                     lk_longitude = - (7400601 / 100000) \<rparr>) \<noteq> upper ''BLM001'' \<and>
   status_of (validate_entry plain_fmt Validator ''form1.pdf'' (Some ''BLM001'')
      (PyNum (407128 / 10000)) (PyNum (- (74006 / 1000))) None
      (Some \<lparr> lk_blmid = ''BLM007'', lk_latitude = 4071281 / 100000,
              lk_longitude = - (7400601 / 100000) \<rparr>) []) = CORRECTED \<and>
   correct_blmid (validate_entry plain_fmt Validator ''form1.pdf'' (Some ''BLM001'')
      (PyNum (407128 / 10000)) (PyNum (- (74006 / 1000))) None
      (Some \<lparr> lk_blmid = ''BLM007'', lk_latitude = 4071281 / 100000,
              lk_longitude = - (7400601 / 100000) \<rparr>) []) = Some ''BLM007''"
proof -
  have h1: "fst (validate_coordinates plain_fmt Validator (PyNum (407128 / 10000))
          (PyNum (- (74006 / 1000))))"
    by (simp add: entry_eval)
  have h2: "''BLM001'' \<noteq> []" by simp
  have h3: "upper (lk_blmid \<lparr> lk_blmid = ''BLM007'', lk_latitude = 4071281 / 100000,
                     lk_longitude = - (7400601 / 100000) \<rparr>) \<noteq> upper ''BLM001''"
    by (simp add: entry_eval)
  from h1 h2 h3 database_mismatch_corrected [OF h1 h2 h3, of "''form1.pdf''" None]
  show ?thesis by simp
qed

section \<open>The coordinate gate (C5)\<close>

text \<open>
  The errors of an entry with invalid coordinates are not the validator's list alone: the
  extraction errors come first. Here the extractor found no latitude.
\<close>

theorem invalid_coordinates_keep_extraction_errors:
  "\<not> fst (validate_coordinates plain_fmt Validator PyNone (PyNum (- (74006 / 1000)))) \<and>
   snd (validate_coordinates plain_fmt Validator PyNone (PyNum (- (74006 / 1000)))) =
     [''Latitude is None''] \<and>
   errors (validate_entry plain_fmt Validator ''form1.pdf'' (Some ''BLM001'')
      PyNone (PyNum (- (74006 / 1000))) None None [''Latitude not found in PDF'']) =
     [''Latitude not found in PDF'', ''Latitude is None'']"
  by (simp add: entry_eval)

text \<open>
  C5, as the code has it. For every entry whose coordinates fail validation (a coordinate
  absent, not a number, or outside the configured ranges), the entry is counted failed, its
  errors are the extraction errors followed by the error list of the coordinate validator,
  and the two lookup results have no effect: no match flag is set, no correction is
  proposed, and the result is the one obtained with both lookups absent.
\<close>

theorem invalid_coordinates_failed:
  assumes "\<not> fst (validate_coordinates fmt v lat lon)"
  shows "status_of (validate_entry fmt v f b lat lon excel db errs) = FAILED \<and>
         errors (validate_entry fmt v f b lat lon excel db errs) =
           errs @ snd (validate_coordinates fmt v lat lon) \<and>
         \<not> excel_match (validate_entry fmt v f b lat lon excel db errs) \<and>
         \<not> database_match (validate_entry fmt v f b lat lon excel db errs) \<and>
         \<not> correction_needed (validate_entry fmt v f b lat lon excel db errs) \<and>
         correct_blmid (validate_entry fmt v f b lat lon excel db errs) = b \<and>
         validate_entry fmt v f b lat lon excel db errs =
           validate_entry fmt v f b lat lon None None errs"
  using assms validate_coordinates_snd_invalid [OF assms]
  by (simp add: validate_entry_invalid status_of_def)

theorem invalid_coordinates_failed_witness:
  "\<not> fst (validate_coordinates plain_fmt Validator (PyNum 95) (PyNum 200)) \<and>
   status_of (validate_entry plain_fmt Validator ''form1.pdf'' None (PyNum 95) (PyNum 200)
      None (Some \<lparr> lk_blmid = ''BLM007'', lk_latitude = 95, lk_longitude = 200 \<rparr>) []) = FAILED \<and>
   errors (validate_entry plain_fmt Validator ''form1.pdf'' None (PyNum 95) (PyNum 200)
      None (Some \<lparr> lk_blmid = ''BLM007'', lk_latitude = 95, lk_longitude = 200 \<rparr>) []) =
     [''Latitude <num> out of range [<num>, <num>]'',
      ''Longitude <num> out of range [<num>, <num>]''] \<and>
   \<not> database_match (validate_entry plain_fmt Validator ''form1.pdf'' None (PyNum 95) (PyNum 200)
      None (Some \<lparr> lk_blmid = ''BLM007'', lk_latitude = 95, lk_longitude = 200 \<rparr>) [])"
proof -
  have h: "\<not> fst (validate_coordinates plain_fmt Validator (PyNum 95) (PyNum 200))"
    by (simp add: entry_eval)
  have s: "snd (validate_coordinates plain_fmt Validator (PyNum 95) (PyNum 200)) =
     [''Latitude <num> out of range [<num>, <num>]'',
      ''Longitude <num> out of range [<num>, <num>]'']"
    by (simp add: entry_eval)
  note t = invalid_coordinates_failed [OF h, of "''form1.pdf''" None None
      "Some \<lparr> lk_blmid = ''BLM007'', lk_latitude = 95, lk_longitude = 200 \<rparr>" "[]"]
  from t have a: "status_of (validate_entry plain_fmt Validator ''form1.pdf'' None (PyNum 95)
      (PyNum 200) None (Some \<lparr> lk_blmid = ''BLM007'', lk_latitude = 95, lk_longitude = 200 \<rparr>)
      []) = FAILED"
    by blast
  from t have b: "errors (validate_entry plain_fmt Validator ''form1.pdf'' None (PyNum 95)
      (PyNum 200) None (Some \<lparr> lk_blmid = ''BLM007'', lk_latitude = 95, lk_longitude = 200 \<rparr>)
      []) = [] @ snd (validate_coordinates plain_fmt Validator (PyNum 95) (PyNum 200))"
    by blast
  from t have c: "\<not> database_match (validate_entry plain_fmt Validator ''form1.pdf'' None
      (PyNum 95) (PyNum 200) None
      (Some \<lparr> lk_blmid = ''BLM007'', lk_latitude = 95, lk_longitude = 200 \<rparr>) [])"
    by blast
  from h a b c s show ?thesis by simp
qed

section \<open>No database record (C6)\<close>

text \<open>
  The message of an entry without a database record is the one of source line 188; the
  wording of the specification does not occur in the error list.
\<close>

theorem database_absent_message:
  "fst (validate_coordinates plain_fmt Validator (PyNum 10) (PyNum 10)) \<and>
   errors (validate_entry plain_fmt Validator ''form4.pdf'' (Some ''BLM002'')
      (PyNum 10) (PyNum 10) None None []) =
     [''No matching BLMID found in database for these coordinates''] \<and>
   ''no matching identifier found in reference or authority source for these coordinates''
     \<notin> set (errors (validate_entry plain_fmt Validator ''form4.pdf'' (Some ''BLM002'')
      (PyNum 10) (PyNum 10) None None []))"
  by (simp add: entry_eval)

text \<open>
  C6, as the code has it. For every entry with valid coordinates, when the database lookup
  is absent the entry is counted failed and its errors contain the string
  \<^verbatim>\<open>No matching BLMID found in database for these coordinates\<close>. This holds whatever
  the reference lookup returned, an exact match included.
\<close>

theorem database_absent_failed:
  assumes "fst (validate_coordinates fmt v lat lon)"
  shows "status_of (validate_entry fmt v f b lat lon excel None errs) = FAILED \<and>
         ''No matching BLMID found in database for these coordinates''
           \<in> set (errors (validate_entry fmt v f b lat lon excel None errs))"
  using assms
  by (simp add: validate_entry_valid status_of_database_step)
     (simp add: database_step_def)

theorem database_absent_failed_witness:
  "fst (validate_coordinates plain_fmt Validator (PyNum 10) (PyNum 10)) \<and>
   status_of (validate_entry plain_fmt Validator ''form4.pdf'' (Some ''BLM002'')
      (PyNum 10) (PyNum 10) None None []) = FAILED \<and>
   ''No matching BLMID found in database for these coordinates''
      \<in> set (errors (validate_entry plain_fmt Validator ''form4.pdf'' (Some ''BLM002'')
      (PyNum 10) (PyNum 10) None None []))"
proof -
  have h: "fst (validate_coordinates plain_fmt Validator (PyNum 10) (PyNum 10))"
    by (simp add: entry_eval)
  from h database_absent_failed [OF h, of "''form4.pdf''" "Some ''BLM002''" None "[]"]
  show ?thesis by simp
qed

section \<open>A corrected entry names another identifier (C7)\<close>

text \<open>
  C7. For every result of \<open>validate_entry\<close>, if the entry is counted corrected then
  \<open>correct_blmid\<close> is present, the extracted identifier is present, and the two differ
  up to case.
\<close>

theorem corrected_has_different_identifier:
  "status_of (validate_entry fmt v f b lat lon excel db errs) = CORRECTED \<Longrightarrow>
   \<exists>c i. correct_blmid (validate_entry fmt v f b lat lon excel db errs) = Some c \<and>
         blmid (validate_entry fmt v f b lat lon excel db errs) = Some i \<and>
         upper c \<noteq> upper i"
proof (cases "fst (validate_coordinates fmt v lat lon)")
  case False
  assume "status_of (validate_entry fmt v f b lat lon excel db errs) = CORRECTED"
  with False show ?thesis
    by (simp add: validate_entry_invalid status_of_def split: if_splits)
next
  case True
  assume "status_of (validate_entry fmt v f b lat lon excel db errs) = CORRECTED"
  with True show ?thesis
    by (auto simp: validate_entry_valid status_of_def database_step_def Let_def
                   excel_step_fields database_step_fields
             split: option.splits if_splits)
qed

theorem corrected_has_different_identifier_witness:
  "status_of (validate_entry plain_fmt Validator ''form1.pdf'' (Some ''blm001'')
      (PyNum (407128 / 10000)) (PyNum (- (74006 / 1000))) None
      (Some \<lparr> lk_blmid = ''BLM007'', lk_latitude = 4071281 / 100000,
              lk_longitude = - (7400601 / 100000) \<rparr>) []) = CORRECTED \<and>
   (\<exists>c i. correct_blmid (validate_entry plain_fmt Validator ''form1.pdf'' (Some ''blm001'')
      (PyNum (407128 / 10000)) (PyNum (- (74006 / 1000))) None
      (Some \<lparr> lk_blmid = ''BLM007'', lk_latitude = 4071281 / 100000,
              lk_longitude = - (7400601 / 100000) \<rparr>) []) = Some c \<and>
      blmid (validate_entry plain_fmt Validator ''form1.pdf'' (Some ''blm001'')
      (PyNum (407128 / 10000)) (PyNum (- (74006 / 1000))) None
      (Some \<lparr> lk_blmid = ''BLM007'', lk_latitude = 4071281 / 100000,
              lk_longitude = - (7400601 / 100000) \<rparr>) []) = Some i \<and>
      upper c \<noteq> upper i)"
proof -
  have h: "status_of (validate_entry plain_fmt Validator ''form1.pdf'' (Some ''blm001'')
      (PyNum (407128 / 10000)) (PyNum (- (74006 / 1000))) None
      (Some \<lparr> lk_blmid = ''BLM007'', lk_latitude = 4071281 / 100000,
              lk_longitude = - (7400601 / 100000) \<rparr>) []) = CORRECTED"
    by (simp add: entry_eval)
  from h corrected_has_different_identifier [OF h] show ?thesis by blast
qed

section \<open>Extraction errors (C9)\<close>



section \<open>An entry without identifier (C10)\<close>

text \<open>
  C10. For every entry whose extracted identifier is absent, whose coordinates are valid and
  whose database lookup returned a record, the result has \<open>database_match\<close> set,
  \<open>correction_needed\<close> false and no identifier in \<open>correct_blmid\<close>; when the entry
  carries no extraction errors it is counted valid, not corrected to the identifier of the
  database record.
\<close>

theorem absent_identifier_not_corrected:
  assumes "fst (validate_coordinates fmt v lat lon)"
  shows "database_match (validate_entry fmt v f None lat lon excel (Some d) errs) \<and>
         \<not> correction_needed (validate_entry fmt v f None lat lon excel (Some d) errs) \<and>
         correct_blmid (validate_entry fmt v f None lat lon excel (Some d) errs) = None \<and>
         (errs = [] \<longrightarrow>
            status_of (validate_entry fmt v f None lat lon excel (Some d) errs) = VALID \<and>
            update_summary s (validate_entry fmt v f None lat lon excel (Some d) errs) =
              s\<lparr>valid_entries := valid_entries s + 1\<rparr>)"
  using assms
  by (simp add: validate_entry_valid database_step_def excel_step_fields status_of_def
        update_summary_def)

theorem absent_identifier_not_corrected_witness:
  "fst (validate_coordinates plain_fmt Validator (PyNum (407128 / 10000))
          (PyNum (- (74006 / 1000)))) \<and>
   database_match (validate_entry plain_fmt Validator ''form1.pdf'' None
      (PyNum (407128 / 10000)) (PyNum (- (74006 / 1000))) None
      (Some \<lparr> lk_blmid = ''BLM007'', lk_latitude = 4071281 / 100000,
              lk_longitude = - (7400601 / 100000) \<rparr>) []) \<and>
   correct_blmid (validate_entry plain_fmt Validator ''form1.pdf'' None
      (PyNum (407128 / 10000)) (PyNum (- (74006 / 1000))) None
      (Some \<lparr> lk_blmid = ''BLM007'', lk_latitude = 4071281 / 100000,
              lk_longitude = - (7400601 / 100000) \<rparr>) []) = None \<and>
   status_of (validate_entry plain_fmt Validator ''form1.pdf'' None
      (PyNum (407128 / 10000)) (PyNum (- (74006 / 1000))) None
      (Some \<lparr> lk_blmid = ''BLM007'', lk_latitude = 4071281 / 100000,
              lk_longitude = - (7400601 / 100000) \<rparr>) []) = VALID \<and>
   update_summary (initial_summary 1)
     (validate_entry plain_fmt Validator ''form1.pdf'' None
      (PyNum (407128 / 10000)) (PyNum (- (74006 / 1000))) None
      (Some \<lparr> lk_blmid = ''BLM007'', lk_latitude = 4071281 / 100000,
              lk_longitude = - (7400601 / 100000) \<rparr>) []) =
     \<lparr> total_processed = 1, valid_entries = 1, corrected_entries = 0,
       failed_extractions = 0, corrections = [], results = [] \<rparr>"
proof -
  have h: "fst (validate_coordinates plain_fmt Validator (PyNum (407128 / 10000))
          (PyNum (- (74006 / 1000))))"
    by (simp add: entry_eval)
  from h absent_identifier_not_corrected [OF h, of "''form1.pdf''" None
      "\<lparr> lk_blmid = ''BLM007'', lk_latitude = 4071281 / 100000,
         lk_longitude = - (7400601 / 100000) \<rparr>" "[]" "initial_summary 1"]
  show ?thesis by (simp add: initial_summary_def)
qed

section \<open>Facts about the reference sheet and the batch loop\<close>

lemmas sheet_eval =
  find_by_blmid_def find_by_coordinates_def excel_lookup_def database_lookup_def row_dict_def
  to_float_def is_num_def cell_within_def

lemmas batch_eval =
  batch_validate_def initial_summary_def validate_extraction_def update_summary_def
  mock_records_def damaged_sheet_def sample_sheet_def form1_def form2_def form3_def

text \<open>A row with two numeric cells always yields its dictionary.\<close>

lemma row_dict_num:
  assumes "is_num (row_Latitude r)" and "is_num (row_Longitude r)"
  shows "\<exists>y. row_dict r = Inr (Some y) \<and> lk_blmid y = row_BLMID r \<and>
             row_Latitude r = Num (lk_latitude y) \<and> row_Longitude r = Num (lk_longitude y)"
  using assms
  by (cases "row_Latitude r"; cases "row_Longitude r")
     (simp_all add: row_dict_def to_float_def is_num_def)

lemma cell_within_Num:
  "cell_within (Num y) x t \<longleftrightarrow> \<bar>x - y\<bar> \<le> t"
  by (simp add: cell_within_def abs_minus_commute)

lemma count_status_simps:
  "count_status st [] = 0"
  "count_status st (d # ds) = (if status_of d = st then 1 else 0) + count_status st ds"
  by (simp_all add: count_status_def)

text \<open>Every result has exactly one of the three statuses.\<close>

lemma count_status_total:
  "count_status VALID ds + count_status CORRECTED ds + count_status FAILED ds = length ds"
proof (induction ds)
  case Nil
  then show ?case by (simp add: count_status_simps)
next
  case (Cons d ds)
  then show ?case by (cases "status_of d") (simp_all add: count_status_simps)
qed

text \<open>The summary step moves exactly the counter of the status of the result.\<close>

lemma update_summary_counts:
  "valid_entries (update_summary s d) = valid_entries s + (if status_of d = VALID then 1 else 0)"
  "corrected_entries (update_summary s d) =
     corrected_entries s + (if status_of d = CORRECTED then 1 else 0)"
  "failed_extractions (update_summary s d) =
     failed_extractions s + (if status_of d = FAILED then 1 else 0)"
  "total_processed (update_summary s d) = total_processed s"
  "results (update_summary s d) = results s"
  by (simp_all add: update_summary_def status_of_def)

text \<open>
  The loop, started from any summary: when no lookup raises it returns, and the results
  and counters grow by the results of the entries, in order.
\<close>

lemma batch_loop_ok:
  assumes "\<forall>e\<in>set es. \<exists>d. validate_extraction fmt v excel db e = Inr d"
  shows "\<exists>s' ds. batch_loop fmt v excel db es s = Inr s' \<and>
           map Inr ds = map (validate_extraction fmt v excel db) es \<and>
           results s' = results s @ ds \<and>
           total_processed s' = total_processed s \<and>
           valid_entries s' = valid_entries s + count_status VALID ds \<and>
           corrected_entries s' = corrected_entries s + count_status CORRECTED ds \<and>
           failed_extractions s' = failed_extractions s + count_status FAILED ds"
  using assms
proof (induction es arbitrary: s)
  case Nil
  show ?case by (simp add: count_status_simps)
next
  case (Cons e es)
  from Cons.prems obtain d where d: "validate_extraction fmt v excel db e = Inr d"
    by auto
  let ?s = "update_summary (s\<lparr>results := results s @ [d]\<rparr>) d"
  from Cons.prems have "\<forall>e\<in>set es. \<exists>d. validate_extraction fmt v excel db e = Inr d"
    by simp
  from Cons.IH [OF this, of ?s] obtain s' ds where
    loop: "batch_loop fmt v excel db es ?s = Inr s'"
    and ds: "map Inr ds = map (validate_extraction fmt v excel db) es"
    and res: "results s' = results ?s @ ds"
    and tot: "total_processed s' = total_processed ?s"
    and va: "valid_entries s' = valid_entries ?s + count_status VALID ds"
    and co: "corrected_entries s' = corrected_entries ?s + count_status CORRECTED ds"
    and fa: "failed_extractions s' = failed_extractions ?s + count_status FAILED ds"
    by blast
  have "batch_loop fmt v excel db (e # es) s = Inr s'"
    using d loop by simp
  moreover have "map Inr (d # ds) = map (validate_extraction fmt v excel db) (e # es)"
    using d ds by simp
  moreover have "results s' = results s @ d # ds"
    using res by (simp add: update_summary_counts)
  moreover have "total_processed s' = total_processed s"
    using tot by (simp add: update_summary_counts)
  moreover have "valid_entries s' = valid_entries s + count_status VALID (d # ds)"
    using va by (simp add: update_summary_counts count_status_simps)
  moreover have "corrected_entries s' = corrected_entries s + count_status CORRECTED (d # ds)"
    using co by (simp add: update_summary_counts count_status_simps)
  moreover have "failed_extractions s' = failed_extractions s + count_status FAILED (d # ds)"
    using fa by (simp add: update_summary_counts count_status_simps)
  ultimately show ?case by blast
qed

lemma validate_extraction_ok:
  assumes "excel_lookup excel (ex_blmid e) = Inr r1"
    and "database_lookup v db (ex_latitude e) (ex_longitude e) = Inr r2"
  shows "\<exists>d. validate_extraction fmt v excel db e = Inr d"
  using assms by (simp add: validate_extraction_def)

section \<open>Reference lookup by coordinates (C4)\<close>

text \<open>
  The sheet holds one row, \<^verbatim>\<open>BLM999\<close> at (40, -74). For the entry \<^verbatim>\<open>BLM001\<close> at the
  same coordinates \<open>find_by_coordinates\<close> would return that row, but the lookup that
  \<open>batch_validate\<close> makes is by identifier and returns nothing.
\<close>

theorem reference_lookup_ignores_coordinates:
  "find_by_coordinates (Some [\<lparr> row_BLMID = ''BLM999'', row_Latitude = Num 40,
        row_Longitude = Num (- 74) \<rparr>]) 40 (- 74) (coordinate_tolerance Validator) =
     Inr (Some \<lparr> lk_blmid = ''BLM999'', lk_latitude = 40, lk_longitude = - 74 \<rparr>) \<and>
   excel_lookup (find_by_blmid (Some [\<lparr> row_BLMID = ''BLM999'', row_Latitude = Num 40,
        row_Longitude = Num (- 74) \<rparr>])) (Some ''BLM001'') = Inr None"
  by (simp add: sheet_eval entry_eval)

text \<open>
  C4, as the code has it. Take a reference sheet whose coordinate cells are all numbers,
  and an entry whose identifier has no row that agrees both in identifier (up to case) and
  in coordinates (within tolerance), while some row agrees in coordinates. Then
  \<open>find_by_coordinates\<close> returns the first row within tolerance, with that row's
  identifier, which differs from the entry's. The reference lookup of \<open>batch_validate\<close>
  is \<open>find_by_blmid\<close> alone: for such an entry it returns nothing, or the first row
  with the entry's identifier, whose coordinates are out of tolerance; it never returns the
  row that matches by coordinates.
\<close>

theorem coordinate_lookup_first_row:
  assumes wf_lat: "list_all (\<lambda>r. is_num (row_Latitude r)) rows"
    and wf_lon: "list_all (\<lambda>r. is_num (row_Longitude r)) rows"
    and near: "\<exists>r\<in>set rows. cell_within (row_Latitude r) la (coordinate_tolerance v) \<and>
                 cell_within (row_Longitude r) lo (coordinate_tolerance v)"
    and no_exact: "\<forall>r\<in>set rows. upper (row_BLMID r) = upper i \<longrightarrow>
                 \<not> (cell_within (row_Latitude r) la (coordinate_tolerance v) \<and>
                    cell_within (row_Longitude r) lo (coordinate_tolerance v))"
  shows "(\<exists>pre r post x.
            rows = pre @ r # post \<and>
            (\<forall>p\<in>set pre. \<not> (cell_within (row_Latitude p) la (coordinate_tolerance v) \<and>
                             cell_within (row_Longitude p) lo (coordinate_tolerance v))) \<and>
            cell_within (row_Latitude r) la (coordinate_tolerance v) \<and>
            cell_within (row_Longitude r) lo (coordinate_tolerance v) \<and>
            find_by_coordinates (Some rows) la lo (coordinate_tolerance v) = Inr (Some x) \<and>
            lk_blmid x = row_BLMID r \<and> upper (lk_blmid x) \<noteq> upper i) \<and>
         (excel_lookup (find_by_blmid (Some rows)) (Some i) = Inr None \<or>
          (\<exists>y. excel_lookup (find_by_blmid (Some rows)) (Some i) = Inr (Some y) \<and>
               upper (lk_blmid y) = upper i \<and>
               \<not> check_coordinates_match v la lo (lk_latitude y) (lk_longitude y)))"
proof
  let ?P = "\<lambda>r. cell_within (row_Latitude r) la (coordinate_tolerance v) \<and>
                 cell_within (row_Longitude r) lo (coordinate_tolerance v)"
  from near have "filter ?P rows \<noteq> []"
    by (simp add: filter_empty_conv)
  then obtain r rest where fr: "filter ?P rows = r # rest"
    by (cases "filter ?P rows") auto
  then obtain pre post where split: "rows = pre @ r # post"
    and pre: "\<forall>p\<in>set pre. \<not> ?P p" and r: "?P r"
    by (auto simp: filter_eq_Cons_iff)
  from split have mem: "r \<in> set rows" by simp
  with wf_lat wf_lon have "is_num (row_Latitude r)" "is_num (row_Longitude r)"
    by (simp_all add: list_all_iff)
  then obtain x where x: "row_dict r = Inr (Some x)" "lk_blmid x = row_BLMID r"
    using row_dict_num by blast
  from wf_lat wf_lon fr x
  have "find_by_coordinates (Some rows) la lo (coordinate_tolerance v) = Inr (Some x)"
    by (simp add: find_by_coordinates_def)
  moreover from no_exact mem r x have "upper (lk_blmid x) \<noteq> upper i"
    by auto
  ultimately show "\<exists>pre r post x.
            rows = pre @ r # post \<and>
            (\<forall>p\<in>set pre. \<not> (cell_within (row_Latitude p) la (coordinate_tolerance v) \<and>
                             cell_within (row_Longitude p) lo (coordinate_tolerance v))) \<and>
            cell_within (row_Latitude r) la (coordinate_tolerance v) \<and>
            cell_within (row_Longitude r) lo (coordinate_tolerance v) \<and>
            find_by_coordinates (Some rows) la lo (coordinate_tolerance v) = Inr (Some x) \<and>
            lk_blmid x = row_BLMID r \<and> upper (lk_blmid x) \<noteq> upper i"
    using split pre r x by blast
next
  show "excel_lookup (find_by_blmid (Some rows)) (Some i) = Inr None \<or>
          (\<exists>y. excel_lookup (find_by_blmid (Some rows)) (Some i) = Inr (Some y) \<and>
               upper (lk_blmid y) = upper i \<and>
               \<not> check_coordinates_match v la lo (lk_latitude y) (lk_longitude y))"
  proof (cases "i = [] \<or> filter (\<lambda>r. upper (row_BLMID r) = upper i) rows = []")
    case True
    then show ?thesis
      by (auto simp: excel_lookup_def find_by_blmid_def)
  next
    case False
    then obtain r rest where fr: "filter (\<lambda>r. upper (row_BLMID r) = upper i) rows = r # rest"
      by (cases "filter (\<lambda>r. upper (row_BLMID r) = upper i) rows") auto
    then have mem: "r \<in> set rows" and same: "upper (row_BLMID r) = upper i"
      by (auto simp: filter_eq_Cons_iff)
    from mem wf_lat wf_lon have "is_num (row_Latitude r)" "is_num (row_Longitude r)"
      by (simp_all add: list_all_iff)
    then obtain y where y: "row_dict r = Inr (Some y)" "lk_blmid y = row_BLMID r"
      "row_Latitude r = Num (lk_latitude y)" "row_Longitude r = Num (lk_longitude y)"
      using row_dict_num by blast
    from False fr y have "excel_lookup (find_by_blmid (Some rows)) (Some i) = Inr (Some y)"
      by (simp add: excel_lookup_def find_by_blmid_def)
    moreover from no_exact mem same y
    have "\<not> check_coordinates_match v la lo (lk_latitude y) (lk_longitude y)"
      by (auto simp: check_coordinates_match_def cell_within_Num)
    ultimately show ?thesis using same y by simp
  qed
qed

theorem coordinate_lookup_first_row_witness:
  "(\<exists>x. find_by_coordinates (Some sample_sheet) 40 (- 74) (coordinate_tolerance Validator) =
          Inr (Some x) \<and> upper (lk_blmid x) \<noteq> upper ''BLM001'') \<and>
   find_by_coordinates (Some sample_sheet) 40 (- 74) (coordinate_tolerance Validator) =
     Inr (Some \<lparr> lk_blmid = ''BLM999'', lk_latitude = 40, lk_longitude = - 74 \<rparr>) \<and>
   excel_lookup (find_by_blmid (Some sample_sheet)) (Some ''BLM001'') =
     Inr (Some \<lparr> lk_blmid = ''BLM001'', lk_latitude = 41, lk_longitude = - 75 \<rparr>)"
proof -
  have h1: "list_all (\<lambda>r. is_num (row_Latitude r)) sample_sheet"
    by (simp add: sample_sheet_def is_num_def)
  have h2: "list_all (\<lambda>r. is_num (row_Longitude r)) sample_sheet"
    by (simp add: sample_sheet_def is_num_def)
  have h3: "\<exists>r\<in>set sample_sheet.
      cell_within (row_Latitude r) 40 (coordinate_tolerance Validator) \<and>
      cell_within (row_Longitude r) (- 74) (coordinate_tolerance Validator)"
    by (simp add: sample_sheet_def cell_within_def Validator_def)
  have h4: "\<forall>r\<in>set sample_sheet. upper (row_BLMID r) = upper ''BLM001'' \<longrightarrow>
      \<not> (cell_within (row_Latitude r) 40 (coordinate_tolerance Validator) \<and>
         cell_within (row_Longitude r) (- 74) (coordinate_tolerance Validator))"
    by (simp add: sample_sheet_def cell_within_def Validator_def upper_def upper_char_def)
  from coordinate_lookup_first_row [OF h1 h2 h3 h4]
  have a: "\<exists>x. find_by_coordinates (Some sample_sheet) 40 (- 74)
               (coordinate_tolerance Validator) = Inr (Some x) \<and>
             upper (lk_blmid x) \<noteq> upper ''BLM001''"
    by blast
  have b: "find_by_coordinates (Some sample_sheet) 40 (- 74) (coordinate_tolerance Validator) =
     Inr (Some \<lparr> lk_blmid = ''BLM999'', lk_latitude = 40, lk_longitude = - 74 \<rparr>)"
    by (simp add: sheet_eval sample_sheet_def Validator_def)
  have c: "excel_lookup (find_by_blmid (Some sample_sheet)) (Some ''BLM001'') =
     Inr (Some \<lparr> lk_blmid = ''BLM001'', lk_latitude = 41, lk_longitude = - 75 \<rparr>)"
    by (simp add: sheet_eval sample_sheet_def upper_def upper_char_def)
  from a b c show ?thesis by blast
qed

section \<open>A lookup that raises (C2)\<close>

text \<open>
  C2 at a concrete batch. The reference sheet has a text in the latitude cell of the row of
  \<^verbatim>\<open>BLM002\<close>. In a batch of three forms the lookup for the second one raises
  \<^verbatim>\<open>ValueError\<close>; \<open>batch_validate\<close> does not catch it, so the call ends with the
  exception and returns no summary: no failed result for the second form, and no result
  for the first and the third, although these two alone are processed and counted valid.
\<close>

theorem batch_validate_propagates_exception:
  "batch_validate plain_fmt Validator [form1, form2, form3]
      (find_by_blmid (Some damaged_sheet)) (mock_find_by_coordinates mock_records) =
     Inl (ValueError (''could not convert string to float: '' @ [CHR 0x27] @ ''unknown''
                        @ [CHR 0x27])) \<and>
   map_sum id (\<lambda>s. (total_processed s, valid_entries s, map pdf_file (results s)))
     (batch_validate plain_fmt Validator [form1, form3]
        (find_by_blmid (Some damaged_sheet)) (mock_find_by_coordinates mock_records)) =
     Inr (2, 2, [''form1.pdf'', ''form3.pdf''])"
  by (simp add: batch_eval sheet_eval entry_eval)

section \<open>One result per entry (C8)\<close>

text \<open>
  When no Excel lookup and no database lookup raises, the loop runs to its end:
  \<open>batch_validate\<close> returns a summary; its list of results has the length of the
  batch, the result at each position is the one of the entry at that position, each result
  has exactly one of the three statuses and is counted once under it, and the valid,
  corrected and failed counts add up to \<open>total_processed\<close>, the length of the batch.
\<close>

theorem batch_validate_one_result_per_entry:
  assumes "\<forall>e\<in>set es. (\<exists>r. excel_lookup excel (ex_blmid e) = Inr r) \<and>
                       (\<exists>r. database_lookup v db (ex_latitude e) (ex_longitude e) = Inr r)"
  shows "\<exists>s. batch_validate fmt v es excel db = Inr s \<and>
             length (results s) = length es \<and>
             (\<forall>k<length es. validate_extraction fmt v excel db (es ! k) = Inr (results s ! k)) \<and>
             total_processed s = length es \<and>
             valid_entries s = count_status VALID (results s) \<and>
             corrected_entries s = count_status CORRECTED (results s) \<and>
             failed_extractions s = count_status FAILED (results s) \<and>
             valid_entries s + corrected_entries s + failed_extractions s = total_processed s"
proof -
  from assms have "\<forall>e\<in>set es. \<exists>d. validate_extraction fmt v excel db e = Inr d"
    using validate_extraction_ok by blast
  from batch_loop_ok [OF this, of "initial_summary (length es)"]
  obtain s ds where
    loop: "batch_loop fmt v excel db es (initial_summary (length es)) = Inr s"
    and ds: "map Inr ds = map (validate_extraction fmt v excel db) es"
    and res: "results s = ds"
    and tot: "total_processed s = length es"
    and va: "valid_entries s = count_status VALID ds"
    and co: "corrected_entries s = count_status CORRECTED ds"
    and fa: "failed_extractions s = count_status FAILED ds"
    by (auto simp: initial_summary_def)
  from ds have len: "length ds = length es"
    by (metis length_map)
  have nth: "\<forall>k<length es. validate_extraction fmt v excel db (es ! k) = Inr (ds ! k)"
  proof (intro allI impI)
    fix k assume k: "k < length es"
    then have "validate_extraction fmt v excel db (es ! k) =
                 map (validate_extraction fmt v excel db) es ! k"
      by simp
    also have "\<dots> = map Inr ds ! k"
      by (simp only: ds)
    also from k len have "\<dots> = Inr (ds ! k)"
      by simp
    finally show "validate_extraction fmt v excel db (es ! k) = Inr (ds ! k)" .
  qed
  from loop res tot va co fa len nth count_status_total [of ds]
  show ?thesis by (simp add: batch_validate_def)
qed

theorem batch_validate_one_result_per_entry_witness:
  "\<exists>s. batch_validate plain_fmt Validator [form1, form3]
          (find_by_blmid (Some damaged_sheet)) (mock_find_by_coordinates mock_records) = Inr s \<and>
       length (results s) = 2 \<and>
       total_processed s = 2 \<and>
       valid_entries s + corrected_entries s + failed_extractions s = 2"
proof -
  have h: "\<forall>e\<in>set [form1, form3].
       (\<exists>r. excel_lookup (find_by_blmid (Some damaged_sheet)) (ex_blmid e) = Inr r) \<and>
       (\<exists>r. database_lookup Validator (mock_find_by_coordinates mock_records)
              (ex_latitude e) (ex_longitude e) = Inr r)"
    by (simp add: batch_eval sheet_eval entry_eval)
  from batch_validate_one_result_per_entry [OF h, of plain_fmt]
  obtain s where
    "batch_validate plain_fmt Validator [form1, form3]
       (find_by_blmid (Some damaged_sheet)) (mock_find_by_coordinates mock_records) = Inr s"
    "length (results s) = length [form1, form3]"
    "total_processed s = length [form1, form3]"
    "valid_entries s + corrected_entries s + failed_extractions s = total_processed s"
    by blast
  then show ?thesis by simp
qed

text \<open>
  C8 at a concrete batch. The claim asks, for every batch, for one result per entry, in
  input order, and for counts that add up to the total. Here the batch holds one form, and
  its Excel lookup meets the row with a text in the latitude cell: the lookup raises
  \<^verbatim>\<open>ValueError\<close>, \<open>batch_validate\<close> does not catch it, and the call ends with the
  exception. There is no list of results and there are no counts, where the claim asks for
  one result and a total of one.
\<close>

theorem batch_without_results:
  "batch_validate plain_fmt Validator [form2]
      (find_by_blmid (Some damaged_sheet)) (mock_find_by_coordinates mock_records) =
     Inl (ValueError (''could not convert string to float: '' @ [CHR 0x27] @ ''unknown''
                        @ [CHR 0x27]))"
  by (simp add: batch_eval sheet_eval entry_eval)

end
